theory Spec2Isabelle
  imports Complex_Main
begin

section \<open>Exceptions, the event trace and the collaborators\<close>

text \<open>
  The two modules drive external tools (\<open>sgdisk\<close>, \<open>cryptsetup\<close>, \<open>ln\<close>) through
  \<open>ironic_lib.utils.execute\<close> and call helpers of \<open>disk_utils\<close> and \<open>tpm_utils\<close>.
  Every Python exception that the code can meet is a value of \<open>exn\<close>.
\<close>

datatype exn =
    ProcessExecutionError string
  | OSError string
  | InstanceDeployFailure string
  | IndexError
  | KeyError string
  | ValueError
  | ZeroDivisionError
  | UnboundLocalError string
  | CollaboratorError string

type_synonym cmd = "string list"

text \<open>
  The state threaded through every function is the trace of what has been done so far:
  each \<open>utils.execute\<close> invocation with its argument vector, each call of a helper that
  lives outside the two modules, and each record handed to the logger.
\<close>

datatype event =
    Execute cmd
  | ListPartitions string
  | GetDevSectorSize string
  | PartitionIndexToPath string int
  | CheckAndGenerateKeyFile
  | UnsealTpmKey
  | LogError string "string list"
  | LogDebug string

type_synonym trace = "event list"

text \<open>An entry of the list returned by \<open>disk_utils.list_partitions\<close>; the code reads only
  the key \<open>number\<close>.\<close>

record part =
  number :: int

text \<open>
  The collaborators are parameters: what a command prints (the pair of standard output and
  standard error that \<open>utils.execute\<close> returns) or the exception it raises, and the results
  of \<open>disk_utils.get_dev_sector_size\<close>, \<open>disk_utils.list_partitions\<close>,
  \<open>disk_utils.partition_index_to_path\<close>, \<open>tpm_utils.check_and_generate_key_file\<close> and
  \<open>tpm_utils.unseal_tpm_key\<close>. The outcome of a command is a function of its argument
  vector.
\<close>

record env =
  execute_result :: "cmd \<Rightarrow> exn + string \<times> string"
  dev_sector_size :: "string \<Rightarrow> exn + int"
  partitions_of :: "string \<Rightarrow> exn + part list"
  index_to_path :: "string \<Rightarrow> int \<Rightarrow> exn + string"
  generated_key_file :: "exn + string"
  unsealed_tpm_key :: "exn + string"

type_synonym 'a prog = "trace \<Rightarrow> (exn + 'a) \<times> trace"

definition ret :: "'a \<Rightarrow> 'a prog" where
  "ret x t = (Inr x, t)"

definition raise :: "exn \<Rightarrow> 'a prog" where
  "raise e t = (Inl e, t)"

definition lift :: "exn + 'a \<Rightarrow> 'a prog" where
  "lift r t = (r, t)"

definition emit :: "event \<Rightarrow> unit prog" where
  "emit ev t = (Inr (), t @ [ev])"

definition and_then :: "'a prog \<Rightarrow> ('a \<Rightarrow> 'b prog) \<Rightarrow> 'b prog" where
  "and_then m f t = (case m t of (Inl e, t') \<Rightarrow> (Inl e, t') | (Inr x, t') \<Rightarrow> f x t')"

text \<open>
  \<open>try: body except Exception: with excutils.save_and_reraise_exception(): handler\<close>.
  When the handler finishes, the saved exception is raised again; when the handler itself
  raises, the context manager drops the saved exception and the new one propagates.
\<close>

definition save_and_reraise_exception :: "'a prog \<Rightarrow> (exn \<Rightarrow> unit prog) \<Rightarrow> 'a prog" where
  "save_and_reraise_exception body handler t =
     (case body t of
        (Inr x, t') \<Rightarrow> (Inr x, t')
      | (Inl e, t') \<Rightarrow>
          (case handler e t' of
             (Inr _, t'') \<Rightarrow> (Inl e, t'')
           | (Inl e', t'') \<Rightarrow> (Inl e', t'')))"

definition execute :: "env \<Rightarrow> cmd \<Rightarrow> (string \<times> string) prog" where
  "execute env c = and_then (emit (Execute c)) (\<lambda>_. lift (execute_result env c))"

section \<open>luks\_utils\<close>

definition check_luks_compatibility :: "unit \<Rightarrow> bool" where
  "check_luks_compatibility _ = True"

definition encrypt_cmd :: "string \<Rightarrow> string \<Rightarrow> cmd" where
  "encrypt_cmd key_file partition' =
     [''cryptsetup'', ''encrypt'', ''--type'', ''luks2'', ''--key-file'', key_file, partition']"

definition reencrypt_cmd :: "string \<Rightarrow> string \<Rightarrow> cmd" where
  "reencrypt_cmd key_file partition' =
     [''cryptsetup'', ''reencrypt'', ''--encrypt'', ''--type'', ''luks2'',
      ''--reduce-device-size'', ''32M'', ''--key-file'', key_file, partition']"

definition add_key_cmd :: "string \<Rightarrow> string \<Rightarrow> cmd" where
  "add_key_cmd key_file partition' =
     [''cryptsetup'', ''luksAddKey'', ''--type'', ''luks2'', ''--key-file'', key_file,
      partition', key_file]"

definition open_cmd :: "string \<Rightarrow> string \<Rightarrow> string \<Rightarrow> cmd" where
  "open_cmd key_file partition' map_target =
     [''cryptsetup'', ''open'', ''--type'', ''luks2'', ''--key-file'', key_file, partition',
      map_target]"

text \<open>
  In the two encryption functions the logger receives the set \<open>{'partition', partition}\<close>
  where a mapping was meant; the record is handed over all the same, and the logger
  does not raise.
\<close>

definition luks_encrypt_devcie_partition :: "env \<Rightarrow> string \<Rightarrow> string \<Rightarrow> unit prog" where
  "luks_encrypt_devcie_partition env key_file partition' =
     save_and_reraise_exception
       (and_then (execute env (encrypt_cmd key_file partition')) (\<lambda>_.
        and_then (execute env (add_key_cmd key_file partition')) (\<lambda>_.
        ret ())))
       (\<lambda>e. emit (LogError ''ERROR: Encryption has failed for %(partition)s''
                     [''partition'', partition']))"

definition luks_re_encrypt_partition :: "env \<Rightarrow> string \<Rightarrow> string \<Rightarrow> unit prog" where
  "luks_re_encrypt_partition env key_file partition' =
     save_and_reraise_exception
       (and_then (execute env (reencrypt_cmd key_file partition')) (\<lambda>_.
        and_then (execute env (add_key_cmd key_file partition')) (\<lambda>_.
        ret ())))
       (\<lambda>e. emit (LogError ''ERROR: Re-encryption has failed for %(partition)s''
                     [''partition'', partition']))"

definition luks_open_partition :: "env \<Rightarrow> string \<Rightarrow> string \<Rightarrow> string \<Rightarrow> string prog" where
  "luks_open_partition env key_file partition' map_target =
     and_then
       (save_and_reraise_exception
          (and_then (execute env (open_cmd key_file partition' map_target)) (\<lambda>_. ret ()))
          (\<lambda>e. emit (LogError ''ERROR: Failed to open encrypted device %(partition)s''
                        [partition'])))
       (\<lambda>_. ret (''/dev/mapper/'' @ map_target))"

text \<open>An event that registers a key in a further key slot.\<close>

fun is_add_key :: "event \<Rightarrow> bool" where
  "is_add_key (Execute (c # a # _)) = (c = ''cryptsetup'' \<and> a = ''luksAddKey'')"
| "is_add_key _ = False"

section \<open>Python text and number primitives\<close>

text \<open>
  Text is a list of code points below 256. \<open>splitlines\<close> is \<open>str.splitlines()\<close>: a line
  ends at LF, CR, CR LF, VT, FF, FS, GS, RS or NEL, and nothing follows the last break.
  \<open>re_split_space\<close> is \<open>re.split(" ", s)\<close>: every single space separates two fields.
\<close>

definition is_linebreak :: "char \<Rightarrow> bool" where
  "is_linebreak c =
     (c \<in> set [CHR 0x0A, CHR 0x0B, CHR 0x0C, CHR 0x0D, CHR 0x1C, CHR 0x1D, CHR 0x1E, CHR 0x85])"

fun splitlines_from :: "string \<Rightarrow> bool \<Rightarrow> string \<Rightarrow> string list" where
  "splitlines_from cur after_cr [] = (if cur = [] then [] else [cur])"
| "splitlines_from cur after_cr (c # cs) =
     (if after_cr \<and> c = CHR 0x0A then splitlines_from cur False cs
      else if is_linebreak c then cur # splitlines_from [] (c = CHR 0x0D) cs
      else splitlines_from (cur @ [c]) False cs)"

definition splitlines :: "string \<Rightarrow> string list" where
  "splitlines s = splitlines_from [] False s"

fun re_split_space_from :: "string \<Rightarrow> string \<Rightarrow> string list" where
  "re_split_space_from cur [] = [cur]"
| "re_split_space_from cur (c # cs) =
     (if c = CHR '' '' then cur # re_split_space_from [] cs
      else re_split_space_from (cur @ [c]) cs)"

definition re_split_space :: "string \<Rightarrow> string list" where
  "re_split_space s = re_split_space_from [] s"

text \<open>\<open>xs[i]\<close> for a literal index \<open>i \<ge> 0\<close>: out of range raises \<open>IndexError\<close>.\<close>

definition py_index :: "'a list \<Rightarrow> nat \<Rightarrow> exn + 'a" where
  "py_index xs i = (if i < length xs then Inr (xs ! i) else Inl IndexError)"

text \<open>
  \<open>int(s)\<close> on text: surrounding white space is dropped, one sign may lead, and the
  rest is decimal digits, where a single underscore may stand between two digits.
\<close>

definition is_space :: "char \<Rightarrow> bool" where
  "is_space c =
     (c \<in> set [CHR 0x09, CHR 0x0A, CHR 0x0B, CHR 0x0C, CHR 0x0D, CHR 0x1C, CHR 0x1D, CHR 0x1E,
               CHR 0x1F, CHR 0x20, CHR 0x85, CHR 0xA0])"

definition strip :: "string \<Rightarrow> string" where
  "strip s = rev (dropWhile is_space (rev (dropWhile is_space s)))"

definition digit_value :: "char \<Rightarrow> nat option" where
  "digit_value c =
     (let n = (of_char c :: nat) in if 48 \<le> n \<and> n \<le> 57 then Some (n - 48) else None)"

fun digits_value :: "nat \<Rightarrow> bool \<Rightarrow> string \<Rightarrow> nat option" where
  "digits_value acc after_digit [] = (if after_digit then Some acc else None)"
| "digits_value acc after_digit (c # cs) =
     (if c = CHR ''_'' then (if after_digit then digits_value acc False cs else None)
      else (case digit_value c of
              None \<Rightarrow> None
            | Some d \<Rightarrow> digits_value (10 * acc + d) True cs))"

definition py_int :: "string \<Rightarrow> exn + int" where
  "py_int s =
     (case strip s of
        [] \<Rightarrow> Inl ValueError
      | c # cs \<Rightarrow>
          (if c = CHR ''-'' then
             (case digits_value 0 False cs of None \<Rightarrow> Inl ValueError | Some n \<Rightarrow> Inr (- int n))
           else if c = CHR ''+'' then
             (case digits_value 0 False cs of None \<Rightarrow> Inl ValueError | Some n \<Rightarrow> Inr (int n))
           else
             (case digits_value 0 False (c # cs) of
                None \<Rightarrow> Inl ValueError
              | Some n \<Rightarrow> Inr (int n))))"

text \<open>\<open>str(i)\<close> of an integer: its decimal digits, after a minus sign when negative.\<close>

definition digit_char :: "nat \<Rightarrow> char" where
  "digit_char d = ''0123456789'' ! d"

fun nat_digits :: "nat \<Rightarrow> string" where
  "nat_digits n =
     (if n < 10 then [digit_char n]
      else nat_digits (n div 10) @ [digit_char (n mod 10)])"

declare nat_digits.simps [simp del]

definition str_int :: "int \<Rightarrow> string" where
  "str_int i = (if i < 0 then CHR ''-'' # nat_digits (nat (- i)) else nat_digits (nat i))"

text \<open>
  \<open>int(a / b)\<close> for integers \<open>a\<close> and \<open>b\<close>: the true division gives the double nearest
  to the quotient, and \<open>int\<close> cuts its fraction off towards zero. In \<open>_grow_part\<close> the
  dividend is \<open>2 ^ 25\<close>. A quotient that is no whole number lies at least \<open>1 / \<bar>b\<bar>\<close> from
  the next whole number, the nearest double lies within \<open>2 ^ 25 / \<bar>b\<bar> * 2 ^ - 53\<close> of the
  quotient, and every whole number up to \<open>2 ^ 25\<close> is a double: rounding never reaches
  the next whole number, so the result is the quotient of the integers cut off towards zero.
\<close>

definition int_of_truediv :: "int \<Rightarrow> int \<Rightarrow> exn + int" where
  "int_of_truediv a b =
     (if b = 0 then Inl ZeroDivisionError else Inr (sgn a * sgn b * (\<bar>a\<bar> div \<bar>b\<bar>)))"

section \<open>luks\_tpm\<close>

subsection \<open>Dependency detection\<close>

text \<open>
  \<open>_detect_dependency\<close> binds the two check functions themselves, without calling them, and
  returns the value of \<open>and\<close> on the two function objects. A Python value here is a
  Boolean or a function object; a function object is true in a condition, and \<open>a and b\<close>
  is \<open>b\<close> when \<open>a\<close> is true, else \<open>a\<close>. \<open>tpm_utils.check_tpm_compatibility\<close> is a
  parameter.
\<close>

datatype pyobj = PyBool bool | PyFunction "unit \<Rightarrow> bool"

fun truthy :: "pyobj \<Rightarrow> bool" where
  "truthy (PyBool b) = b"
| "truthy (PyFunction f) = True"

definition py_and :: "pyobj \<Rightarrow> pyobj \<Rightarrow> pyobj" where
  "py_and a b = (if truthy a then b else a)"

definition detect_dependency :: "(unit \<Rightarrow> bool) \<Rightarrow> pyobj" where
  "detect_dependency check_tpm_compatibility =
     (let luks_compatibility = PyFunction check_luks_compatibility;
          tpm_conpatibility = PyFunction check_tpm_compatibility
      in py_and luks_compatibility tpm_conpatibility)"

datatype HardwareSupport = NONE | GENERIC | MAINLINE | SERVICE_PROVIDER

definition evaluate_hardware_support :: "(unit \<Rightarrow> bool) \<Rightarrow> HardwareSupport prog" where
  "evaluate_hardware_support check_tpm_compatibility =
     (if truthy (detect_dependency check_tpm_compatibility) then
        and_then (emit (LogDebug ''DEBUG: TPM+LUKS based encryption is supported!''))
          (\<lambda>_. ret MAINLINE)
      else
        and_then (emit (LogDebug ''DEBUG: TPM+LUKS based encryption is not supported!''))
          (\<lambda>_. ret NONE))"

text \<open>What the docstring of \<open>_detect_dependency\<close> and the interface description ask for:
  the level is \<open>MAINLINE\<close> exactly when both checks report true.\<close>

definition spec_evaluate_support :: "bool \<Rightarrow> bool \<Rightarrow> HardwareSupport" where
  "spec_evaluate_support luks_ok tpm_ok = (if luks_ok \<and> tpm_ok then MAINLINE else NONE)"

subsection \<open>Growing the partition\<close>

text \<open>The dictionary built by \<open>detect_root_partition_on_device\<close>; the key \<open>device\<close> is
  added later by the whole-disk workflow, and reading it before raises \<open>KeyError\<close>.\<close>

record partition_info =
  partition_path :: string
  index_number :: int
  device :: "string option"

definition get_dev_sector_size :: "env \<Rightarrow> string \<Rightarrow> int prog" where
  "get_dev_sector_size env dev =
     and_then (emit (GetDevSectorSize dev)) (\<lambda>_. lift (dev_sector_size env dev))"

definition luks_header_sector_size :: "int \<Rightarrow> exn + int" where
  "luks_header_sector_size sector_size = int_of_truediv (32 * 1024 * 1024) sector_size"

definition sgdisk_i_cmd :: "int \<Rightarrow> string \<Rightarrow> cmd" where
  "sgdisk_i_cmd idx_num dev = [''sgdisk'', ''-i'', str_int idx_num, dev]"

definition sgdisk_rewrite_cmd :: "int \<Rightarrow> string \<Rightarrow> string \<Rightarrow> string \<Rightarrow> cmd" where
  "sgdisk_rewrite_cmd idx_num first_sector last_sector dev =
     [''sgdisk'', ''-e'', ''-d'', str_int idx_num, ''-n'',
      str_int idx_num @ '':'' @ first_sector @ '':'' @ last_sector, dev]"

text \<open>
  The handler of \<open>_grow_part\<close> builds the arguments of the log record first: it reads
  \<open>partition_info['partition_path']\<close>, then the locals \<open>first_sector\<close> and
  \<open>last_sector\<close>. A local that no assignment has reached is \<open>None\<close> here, and reading
  it raises \<open>UnboundLocalError\<close> before the logger is called.
\<close>

definition grow_part_handler ::
  "partition_info \<Rightarrow> string option \<Rightarrow> string option \<Rightarrow> exn \<Rightarrow> unit prog" where
  "grow_part_handler partition_info first_sector last_sector e =
     (case first_sector of
        None \<Rightarrow> raise (UnboundLocalError ''first_sector'')
      | Some first_value \<Rightarrow>
          (case last_sector of
             None \<Rightarrow> raise (UnboundLocalError ''last_sector'')
           | Some last_value \<Rightarrow>
               emit (LogError
                 ''ERROR: Can't grow %(partition)s, first sector:%(first)s , last sector: %(last)''
                 [partition_path partition_info, first_value, last_value])))"

text \<open>
  The body of the \<open>try\<close> block in four stretches, one for each state of the two locals
  that the handler reads: up to the assignment of \<open>first_sector\<close>; up to the first
  assignment of \<open>last_sector\<close>; the conversion of the old end sector; and the rewrite
  with the new value of \<open>last_sector\<close>.
\<close>

text \<open>\<open>re.split(" ", part_info_lines[n])[2]\<close>: the line is looked up first, then
  split, then field 2 is taken.\<close>

definition sector_field :: "string list \<Rightarrow> nat \<Rightarrow> exn + string" where
  "sector_field part_info_lines n =
     (case py_index part_info_lines n of
        Inl e \<Rightarrow> Inl e
      | Inr line \<Rightarrow> py_index (re_split_space line) 2)"

definition grow_part_read_first :: "env \<Rightarrow> partition_info \<Rightarrow> (string \<times> int \<times> string list \<times> string) prog" where
  "grow_part_read_first env partition_info =
     (let idx_num = index_number partition_info in
      and_then (lift (case device partition_info of
                        None \<Rightarrow> Inl (KeyError ''device'')
                      | Some d \<Rightarrow> Inr d)) (\<lambda>dev.
      and_then (get_dev_sector_size env dev) (\<lambda>sector_size.
      and_then (lift (luks_header_sector_size sector_size)) (\<lambda>header_sectors.
      and_then (execute env (sgdisk_i_cmd idx_num dev)) (\<lambda>out.
      let part_info_lines = splitlines (fst out) in
      and_then (lift (sector_field part_info_lines 2)) (\<lambda>first_sector.
      ret (dev, header_sectors, part_info_lines, first_sector)))))))"

definition grow_part_read_last :: "string list \<Rightarrow> string prog" where
  "grow_part_read_last part_info_lines = lift (sector_field part_info_lines 3)"

definition grow_part_new_last :: "string \<Rightarrow> int \<Rightarrow> string prog" where
  "grow_part_new_last last_sector header_sectors =
     and_then (lift (py_int last_sector)) (\<lambda>old_last.
     ret (str_int (old_last + header_sectors)))"

definition grow_part :: "env \<Rightarrow> partition_info \<Rightarrow> unit prog" where
  "grow_part env partition_info =
     and_then
       (save_and_reraise_exception (grow_part_read_first env partition_info)
          (grow_part_handler partition_info None None))
       (\<lambda>(dev, header_sectors, part_info_lines, first_sector).
     and_then
       (save_and_reraise_exception (grow_part_read_last part_info_lines)
          (grow_part_handler partition_info (Some first_sector) None))
       (\<lambda>last_sector.
     and_then
       (save_and_reraise_exception (grow_part_new_last last_sector header_sectors)
          (grow_part_handler partition_info (Some first_sector) (Some last_sector)))
       (\<lambda>new_last_sector.
     save_and_reraise_exception
       (and_then
          (execute env
             (sgdisk_rewrite_cmd (index_number partition_info) first_sector new_last_sector dev))
          (\<lambda>_. ret ()))
       (grow_part_handler partition_info (Some first_sector) (Some new_last_sector)))))"

text \<open>The header size the interface description gives: the ceiling of 32 MiB over the
  sector size.\<close>

definition spec_header_sectors :: "int \<Rightarrow> int" where
  "spec_header_sectors sector_size = \<lceil>(32 * 1024 * 1024 :: real) / of_int sector_size\<rceil>"

subsection \<open>Finding the root partition\<close>

definition root_typecode :: string where
  "root_typecode = ''4F68BCE3-E8CD-4DB1-96E7-FBCAF984B709''"

definition sgdisk_info_cmd :: "string \<Rightarrow> int \<Rightarrow> cmd" where
  "sgdisk_info_cmd disk p_num = [''sgdisk'', ''--info'', str_int p_num, disk]"

definition ln_cmd :: "string \<Rightarrow> cmd" where
  "ln_cmd path = [''ln'', ''-s'', path, ''/tmp/root_partition'']"

definition list_partitions :: "env \<Rightarrow> string \<Rightarrow> part list prog" where
  "list_partitions env disk =
     and_then (emit (ListPartitions disk)) (\<lambda>_. lift (partitions_of env disk))"

definition partition_index_to_path :: "env \<Rightarrow> string \<Rightarrow> int \<Rightarrow> string prog" where
  "partition_index_to_path env disk p_num =
     and_then (emit (PartitionIndexToPath disk p_num)) (\<lambda>_. lift (index_to_path env disk p_num))"

text \<open>The type code that the loop reads for one partition number: field 3 of line 0 of
  what \<open>sgdisk --info\<close> prints.\<close>

definition parse_typecode :: "string \<Rightarrow> exn + string" where
  "parse_typecode lines =
     (case py_index (splitlines lines) 0 of
        Inl e \<Rightarrow> Inl e
      | Inr line \<Rightarrow> py_index (re_split_space line) 3)"

text \<open>One round of the \<open>for\<close> loop; \<open>root_partition_info\<close> is \<open>None\<close> until a
  partition has matched.\<close>

definition scan_partition ::
  "env \<Rightarrow> string \<Rightarrow> part \<Rightarrow> partition_info option \<Rightarrow> partition_info option prog" where
  "scan_partition env disk part' root_partition_info =
     (let p_num = number part' in
      and_then (execute env (sgdisk_info_cmd disk p_num)) (\<lambda>out.
      and_then (lift (parse_typecode (fst out))) (\<lambda>typecode.
      if typecode = root_typecode then
        and_then (partition_index_to_path env disk p_num) (\<lambda>path.
        ret (Some \<lparr>partition_path = path, index_number = p_num, device = None\<rparr>))
      else ret root_partition_info)))"

fun for_each :: "('a \<Rightarrow> 's \<Rightarrow> 's prog) \<Rightarrow> 'a list \<Rightarrow> 's \<Rightarrow> 's prog" where
  "for_each body [] s t = (Inr s, t)"
| "for_each body (x # xs) s t =
     (case body x s t of
        (Inl e, t') \<Rightarrow> (Inl e, t')
      | (Inr s', t') \<Rightarrow> for_each body xs s' t')"

definition detect_root_partition_on_device :: "env \<Rightarrow> string \<Rightarrow> partition_info prog" where
  "detect_root_partition_on_device env disk =
     and_then (list_partitions env disk) (\<lambda>partitions.
     save_and_reraise_exception
       (and_then (for_each (scan_partition env disk) partitions None) (\<lambda>root_partition_info.
          case root_partition_info of
            None \<Rightarrow> raise (InstanceDeployFailure ''ERROR: Can't find typecode match!'')
          | Some info \<Rightarrow>
              and_then (execute env (ln_cmd (partition_path info))) (\<lambda>_. ret info)))
       (\<lambda>e. emit (LogError ''ERROR: Can't find root partition on %(device)s'' [disk])))"

subsection \<open>The hardware manager's workflows\<close>

definition check_and_generate_key_file :: "env \<Rightarrow> string prog" where
  "check_and_generate_key_file env =
     and_then (emit CheckAndGenerateKeyFile) (\<lambda>_. lift (generated_key_file env))"

definition unseal_tpm_key :: "env \<Rightarrow> string prog" where
  "unseal_tpm_key env = and_then (emit UnsealTpmKey) (\<lambda>_. lift (unsealed_tpm_key env))"

definition whole_disk_image_encryption :: "env \<Rightarrow> string \<Rightarrow> unit prog" where
  "whole_disk_image_encryption env dev =
     and_then (detect_root_partition_on_device env dev) (\<lambda>found.
     let root_partition_info = found\<lparr>device := Some dev\<rparr> in
     and_then (grow_part env root_partition_info) (\<lambda>_.
     and_then (check_and_generate_key_file env) (\<lambda>key_file.
     luks_re_encrypt_partition env key_file (partition_path root_partition_info))))"

definition config_drive_encryption :: "env \<Rightarrow> string \<Rightarrow> unit prog" where
  "config_drive_encryption env conf_part =
     and_then (check_and_generate_key_file env) (\<lambda>key_file.
     luks_re_encrypt_partition env key_file conf_part)"

definition config_drive_open :: "env \<Rightarrow> string \<Rightarrow> string prog" where
  "config_drive_open env conf_part =
     and_then (unseal_tpm_key env) (\<lambda>key_file.
     luks_open_partition env key_file conf_part ''config-2'')"

text \<open>The three partition-image methods log one error and fall off their end: the call
  returns Python's \<open>None\<close>, which is \<open>()\<close> here.\<close>

definition not_implemented_message :: string where
  "not_implemented_message = ''ERROR: Partition image encryption is not yet implementd!''"

definition partition_image_root_partition_encryption :: "string \<Rightarrow> unit prog" where
  "partition_image_root_partition_encryption partition' =
     and_then (emit (LogError not_implemented_message [])) (\<lambda>_. ret ())"

definition partition_image_initrd_customization :: "string \<Rightarrow> unit prog" where
  "partition_image_initrd_customization partition' =
     and_then (emit (LogError not_implemented_message [])) (\<lambda>_. ret ())"

definition partition_image_open_root_partition :: "string \<Rightarrow> unit prog" where
  "partition_image_open_root_partition partition' =
     and_then (emit (LogError not_implemented_message [])) (\<lambda>_. ret ())"

text \<open>Events that adjust the geometry, and events that belong to encryption.\<close>

fun is_geometry_call :: "event \<Rightarrow> bool" where
  "is_geometry_call (GetDevSectorSize _) = True"
| "is_geometry_call (Execute (c # a # _)) = (c = ''sgdisk'' \<and> (a = ''-i'' \<or> a = ''-e''))"
| "is_geometry_call _ = False"

fun is_encryption_call :: "event \<Rightarrow> bool" where
  "is_encryption_call CheckAndGenerateKeyFile = True"
| "is_encryption_call (Execute (c # _)) = (c = ''cryptsetup'')"
| "is_encryption_call _ = False"

section \<open>Notions used to state the properties\<close>

text \<open>The type code the scan sees for a partition, whether it is the root type code, and
  the dictionary the scan builds for a matching partition.\<close>

definition typecode_of :: "env \<Rightarrow> string \<Rightarrow> part \<Rightarrow> exn + string" where
  "typecode_of env disk p =
     (case execute_result env (sgdisk_info_cmd disk (number p)) of
        Inl e \<Rightarrow> Inl e
      | Inr out \<Rightarrow> parse_typecode (fst out))"

definition is_root_partition :: "env \<Rightarrow> string \<Rightarrow> part \<Rightarrow> bool" where
  "is_root_partition env disk p = (typecode_of env disk p = Inr root_typecode)"

definition root_info_of :: "env \<Rightarrow> string \<Rightarrow> part \<Rightarrow> partition_info option" where
  "root_info_of env disk p =
     (case index_to_path env disk (number p) of
        Inl e \<Rightarrow> None
      | Inr path \<Rightarrow> Some \<lparr>partition_path = path, index_number = number p, device = None\<rparr>)"

text \<open>The events of one round of the scan.\<close>

definition scan_events :: "env \<Rightarrow> string \<Rightarrow> part \<Rightarrow> event list" where
  "scan_events env disk p =
     Execute (sgdisk_info_cmd disk (number p)) #
     (if is_root_partition env disk p then [PartitionIndexToPath disk (number p)] else [])"

fun is_log_error :: "event \<Rightarrow> bool" where
  "is_log_error (LogError _ _) = True"
| "is_log_error _ = False"

subsection \<open>A sample machine\<close>

text \<open>A disk \<open>/dev/sda\<close> with sectors of 512 bytes and three partitions, the second of
  which carries the root type code; every other command succeeds and prints nothing.\<close>

definition sample_info :: "string \<Rightarrow> string" where
  "sample_info typecode =
     ''Partition GUID code: '' @ typecode @ '' (Linux)'' @ [CHR 0x0A] @
     ''Partition unique GUID: 6E2B1A5C-0000-4000-8000-000000000001'' @ [CHR 0x0A] @
     ''First sector: 2048 (at 1024.0 KiB)'' @ [CHR 0x0A] @
     ''Last sector: 206847 (at 101.0 MiB)'' @ [CHR 0x0A]"

definition sample_execute :: "cmd \<Rightarrow> exn + string \<times> string" where
  "sample_execute c =
     (if c = [''sgdisk'', ''--info'', ''1'', ''/dev/sda'']
        then Inr (sample_info ''C12A7328-F81F-11D2-BA4B-00A0C93EC93B'', [])
      else if c = [''sgdisk'', ''--info'', ''2'', ''/dev/sda'']
        then Inr (sample_info ''4F68BCE3-E8CD-4DB1-96E7-FBCAF984B709'', [])
      else if c = [''sgdisk'', ''--info'', ''3'', ''/dev/sda'']
        then Inr (sample_info ''0FC63DAF-8483-4772-8E79-3D69D8477DE4'', [])
      else if c = [''sgdisk'', ''-i'', ''2'', ''/dev/sda'']
        then Inr (sample_info ''4F68BCE3-E8CD-4DB1-96E7-FBCAF984B709'', [])
      else Inr ([], []))"

definition sample_env :: env where
  "sample_env =
     \<lparr>execute_result = sample_execute,
      dev_sector_size = (\<lambda>_. Inr 512),
      partitions_of = (\<lambda>_. Inr [\<lparr>number = 1\<rparr>, \<lparr>number = 2\<rparr>, \<lparr>number = 3\<rparr>]),
      index_to_path = (\<lambda>disk n. Inr (disk @ str_int n)),
      generated_key_file = Inr ''/tmp/key'',
      unsealed_tpm_key = Inr ''/tmp/key''\<rparr>"

text \<open>The same machine with a disk that has no root partition, and with tools that fail.\<close>

definition rootless_env :: env where
  "rootless_env =
     sample_env\<lparr>partitions_of := (\<lambda>_. Inr [\<lparr>number = 1\<rparr>, \<lparr>number = 3\<rparr>])\<rparr>"

definition broken_tools_env :: env where
  "broken_tools_env =
     sample_env\<lparr>execute_result := (\<lambda>_. Inl (ProcessExecutionError ''exit status 4''))\<rparr>"

definition broken_ln_env :: env where
  "broken_ln_env =
     sample_env\<lparr>execute_result :=
       (\<lambda>c. if c = ln_cmd ''/dev/sda2'' then Inl (ProcessExecutionError ''File exists'')
            else sample_execute c)\<rparr>"

definition sample_root_info :: partition_info where
  "sample_root_info =
     \<lparr>partition_path = ''/dev/sda2'', index_number = 2, device = Some ''/dev/sda''\<rparr>"

text \<open>The sample disk with the root type code on partitions 2 and 3.\<close>

definition two_roots_env :: env where
  "two_roots_env =
     sample_env\<lparr>execute_result :=
       (\<lambda>c. if c = [''sgdisk'', ''--info'', ''3'', ''/dev/sda'']
            then Inr (sample_info ''4F68BCE3-E8CD-4DB1-96E7-FBCAF984B709'', [])
            else sample_execute c)\<rparr>"

text \<open>That disk with a partition list that is not in ascending order of index.\<close>

definition shuffled_env :: env where
  "shuffled_env =
     two_roots_env\<lparr>partitions_of := (\<lambda>_. Inr [\<lparr>number = 3\<rparr>, \<lparr>number = 1\<rparr>, \<lparr>number = 2\<rparr>])\<rparr>"

definition no_sector_size_env :: env where
  "no_sector_size_env =
     sample_env\<lparr>dev_sector_size := (\<lambda>_. Inl (ProcessExecutionError ''blockdev''))\<rparr>"

section \<open>Properties\<close>

lemmas prog_defs = ret_def raise_def lift_def emit_def and_then_def
  save_and_reraise_exception_def execute_def

subsection \<open>The partition-image workflows\<close>

text \<open>
  C1. The claim asks that each of the three partition-image workflows reports a
  not-implemented failure. The code does not: each call appends one error record to the
  log and returns normally with \<open>None\<close>, for every partition argument and every trace.
\<close>

theorem partition_image_workflows_return_none:
  "partition_image_root_partition_encryption p t =
     (Inr (), t @ [LogError not_implemented_message []]) \<and>
   partition_image_initrd_customization p t =
     (Inr (), t @ [LogError not_implemented_message []]) \<and>
   partition_image_open_root_partition p t =
     (Inr (), t @ [LogError not_implemented_message []])"
  by (simp add: partition_image_root_partition_encryption_def
      partition_image_initrd_customization_def partition_image_open_root_partition_def
      prog_defs)

subsection \<open>Hardware support\<close>

lemma evaluate_hardware_support_constant:
  "evaluate_hardware_support check_tpm t =
     (Inr MAINLINE, t @ [LogDebug ''DEBUG: TPM+LUKS based encryption is supported!''])"
  by (simp add: evaluate_hardware_support_def detect_dependency_def py_and_def prog_defs)

text \<open>
  C2. The claim asks for \<open>NONE\<close> when a compatibility check reports false. With a TPM
  check that reports false, \<open>evaluate_hardware_support\<close> still returns \<open>MAINLINE\<close>: the
  check is never called.
\<close>

theorem evaluate_hardware_support_ignores_tpm_check:
  "fst (evaluate_hardware_support (\<lambda>_. False) t) = Inr MAINLINE"
  by (simp add: evaluate_hardware_support_def detect_dependency_def py_and_def prog_defs)

subsection \<open>Header sectors\<close>

lemma luks_header_sector_size_pos:
  "0 < s \<Longrightarrow> luks_header_sector_size s = Inr (33554432 div s)"
  by (simp add: luks_header_sector_size_def int_of_truediv_def)

lemma floor_header_quotient: "\<lfloor>(33554432::real) / of_int s\<rfloor> = 33554432 div s"
proof -
  have "\<lfloor>real_of_int 33554432 / real_of_int s\<rfloor> = 33554432 div s"
    by (rule floor_divide_of_int_eq)
  then show ?thesis by simp
qed

lemma ceiling_header_quotient: "\<lceil>(33554432::real) / of_int s\<rceil> = - ((- 33554432) div s)"
proof -
  have "\<lceil>real_of_int 33554432 / real_of_int s\<rceil> =
        - \<lfloor>- (real_of_int 33554432 / real_of_int s)\<rfloor>"
    by (simp add: ceiling_def)
  also have "- (real_of_int 33554432 / real_of_int s) =
             real_of_int (- 33554432) / real_of_int s"
    by simp
  also have "\<lfloor>real_of_int (- 33554432) / real_of_int s\<rfloor> = (- 33554432) div s"
    by (rule floor_divide_of_int_eq)
  finally show ?thesis by simp
qed

lemma ceiling_is_floor_iff_dvd:
  "0 < (s::int) \<Longrightarrow> (- ((- a) div s) = a div s) = (s dvd a)"
  by (simp add: zdiv_zminus1_eq_if dvd_eq_mod_eq_0)

text \<open>
  C3, as claimed: the header sectors are the ceiling of 32 MiB over the sector size, for
  every positive sector size. This fails for a disk with sectors of 520 bytes: the code
  computes 64527, the ceiling is 64528.
\<close>

theorem luks_header_sector_size_not_ceiling:
  "0 < (520::int) \<and> luks_header_sector_size 520 = Inr 64527 \<and> spec_header_sectors 520 = 64528"
  by (simp add: luks_header_sector_size_def int_of_truediv_def spec_header_sectors_def)

text \<open>
  C3, amended: for every positive sector size the header sectors are the floor of 32 MiB
  over the sector size; this is the ceiling exactly when the sector size divides 32 MiB;
  for 512 bytes it is 65536 and for 4096 bytes it is 8192.
\<close>

theorem luks_header_sector_size_floor:
  assumes "0 < s"
  shows "luks_header_sector_size s = Inr \<lfloor>(32 * 1024 * 1024 :: real) / of_int s\<rfloor> \<and>
         (luks_header_sector_size s = Inr (spec_header_sectors s) \<longleftrightarrow>
            s dvd 32 * 1024 * 1024) \<and>
         luks_header_sector_size 512 = Inr 65536 \<and>
         luks_header_sector_size 4096 = Inr 8192"
proof -
  have a: "luks_header_sector_size s = Inr (33554432 div s)"
    using assms by (rule luks_header_sector_size_pos)
  have b: "\<lfloor>(32 * 1024 * 1024 :: real) / of_int s\<rfloor> = 33554432 div s"
    using floor_header_quotient [of s] by simp
  have c: "spec_header_sectors s = - ((- 33554432) div s)"
    using ceiling_header_quotient [of s] by (simp add: spec_header_sectors_def)
  have d: "(luks_header_sector_size s = Inr (spec_header_sectors s)) = (s dvd 33554432)"
    using ceiling_is_floor_iff_dvd [OF assms, of 33554432]
    by (simp only: a c sum.inject eq_commute [of "33554432 div s"])
  have e: "luks_header_sector_size 512 = Inr 65536"
    by (simp add: luks_header_sector_size_pos)
  have f: "luks_header_sector_size 4096 = Inr 8192"
    by (simp add: luks_header_sector_size_pos)
  show ?thesis using a b d e f by simp
qed

theorem luks_header_sector_size_floor_witness:
  "0 < (520::int) \<and> luks_header_sector_size 520 = Inr 64527 \<and>
   \<not> (520::int) dvd 32 * 1024 * 1024"
  using luks_header_sector_size_floor [of 520] by simp

subsection \<open>Encryption and the second key slot\<close>

text \<open>
  C6. In \<open>luks_encrypt_devcie_partition\<close> and in \<open>luks_re_encrypt_partition\<close>, when the
  primary \<open>cryptsetup\<close> step fails, its exception reaches the caller and the trace gains
  the primary command and one log record only; and whenever a \<open>luksAddKey\<close> command
  appears among the new events, the primary step had succeeded.
\<close>

theorem add_key_only_after_primary:
  "(execute_result env (encrypt_cmd k p) = Inl e \<longrightarrow>
      luks_encrypt_devcie_partition env k p t =
        (Inl e, t @ [Execute (encrypt_cmd k p),
             LogError ''ERROR: Encryption has failed for %(partition)s'' [''partition'', p]])) \<and>
   (execute_result env (reencrypt_cmd k p) = Inl e \<longrightarrow>
      luks_re_encrypt_partition env k p t =
        (Inl e, t @ [Execute (reencrypt_cmd k p),
             LogError ''ERROR: Re-encryption has failed for %(partition)s''
               [''partition'', p]])) \<and>
   (list_ex is_add_key (drop (length t) (snd (luks_encrypt_devcie_partition env k p t))) \<longrightarrow>
      (\<exists>out. execute_result env (encrypt_cmd k p) = Inr out)) \<and>
   (list_ex is_add_key (drop (length t) (snd (luks_re_encrypt_partition env k p t))) \<longrightarrow>
      (\<exists>out. execute_result env (reencrypt_cmd k p) = Inr out))"
  apply (cases "execute_result env (encrypt_cmd k p)";
         cases "execute_result env (reencrypt_cmd k p)")
     apply (auto simp add: luks_encrypt_devcie_partition_def luks_re_encrypt_partition_def
      prog_defs encrypt_cmd_def reencrypt_cmd_def split: sum.splits prod.splits)
  done

theorem add_key_only_after_primary_witness:
  "luks_encrypt_devcie_partition broken_tools_env ''/tmp/key'' ''/dev/sda2'' [] =
     (Inl (ProcessExecutionError ''exit status 4''),
      [] @ [Execute (encrypt_cmd ''/tmp/key'' ''/dev/sda2''),
       LogError ''ERROR: Encryption has failed for %(partition)s''
         [''partition'', ''/dev/sda2'']]) \<and>
   luks_re_encrypt_partition broken_tools_env ''/tmp/key'' ''/dev/sda2'' [] =
     (Inl (ProcessExecutionError ''exit status 4''),
      [] @ [Execute (reencrypt_cmd ''/tmp/key'' ''/dev/sda2''),
       LogError ''ERROR: Re-encryption has failed for %(partition)s''
         [''partition'', ''/dev/sda2'']]) \<and>
   (\<exists>out. execute_result sample_env (encrypt_cmd ''/tmp/key'' ''/dev/sda2'') = Inr out) \<and>
   (\<exists>out. execute_result sample_env (reencrypt_cmd ''/tmp/key'' ''/dev/sda2'') = Inr out)"
proof -
  have h: "execute_result broken_tools_env c = Inl (ProcessExecutionError ''exit status 4'')"
    for c
    by (simp add: broken_tools_env_def)
  have s1: "list_ex is_add_key (drop (length ([]::trace))
              (snd (luks_encrypt_devcie_partition sample_env ''/tmp/key'' ''/dev/sda2'' [])))"
    by (simp add: luks_encrypt_devcie_partition_def prog_defs sample_env_def
        sample_execute_def encrypt_cmd_def add_key_cmd_def)
  have s2: "list_ex is_add_key (drop (length ([]::trace))
              (snd (luks_re_encrypt_partition sample_env ''/tmp/key'' ''/dev/sda2'' [])))"
    by (simp add: luks_re_encrypt_partition_def prog_defs sample_env_def
        sample_execute_def reencrypt_cmd_def add_key_cmd_def)
  note main = add_key_only_after_primary
  show ?thesis
    by (intro conjI
        main [THEN conjunct1, rule_format, OF h]
        main [THEN conjunct2, THEN conjunct1, rule_format, OF h]
        main [where e = ValueError, THEN conjunct2, THEN conjunct2, THEN conjunct1,
             rule_format, OF s1]
        main [where e = ValueError, THEN conjunct2, THEN conjunct2, THEN conjunct2,
             rule_format, OF s2])
qed

subsection \<open>Opening a volume\<close>

lemma luks_open_ok:
  "execute_result env (open_cmd k p m) = Inr out \<Longrightarrow>
   luks_open_partition env k p m t =
     (Inr (''/dev/mapper/'' @ m), t @ [Execute (open_cmd k p m)])"
  by (simp add: luks_open_partition_def prog_defs)

lemma luks_open_fail:
  "execute_result env (open_cmd k p m) = Inl e \<Longrightarrow>
   luks_open_partition env k p m t =
     (Inl e, t @ [Execute (open_cmd k p m),
                  LogError ''ERROR: Failed to open encrypted device %(partition)s'' [p]])"
  by (simp add: luks_open_partition_def prog_defs)

lemma luks_open_result:
  assumes "luks_open_partition env k p m t = (Inr r, t')"
  shows "r = ''/dev/mapper/'' @ m \<and> t' = t @ [Execute (open_cmd k p m)]"
proof (cases "execute_result env (open_cmd k p m)")
  case (Inl e)
  from luks_open_fail [OF this, of t] assms show ?thesis by simp
next
  case (Inr out)
  from luks_open_ok [OF this, of t] assms show ?thesis by simp
qed

lemma config_drive_open_unfold:
  "config_drive_open env p t =
     (case unsealed_tpm_key env of
        Inl e \<Rightarrow> (Inl e, t @ [UnsealTpmKey])
      | Inr key \<Rightarrow> luks_open_partition env key p ''config-2'' (t @ [UnsealTpmKey]))"
  by (simp add: config_drive_open_def unseal_tpm_key_def ret_def lift_def emit_def
      and_then_def split: sum.splits)

text \<open>
  C8. When the \<open>cryptsetup open\<close> command succeeds, \<open>luks_open_partition\<close> returns the
  mapper directory followed by the mapper name; every value it returns has this form,
  whatever the key file and the partition are; and every value \<open>config_drive_open\<close>
  returns is \<open>/dev/mapper/config-2\<close>, after one \<open>open\<close> command under the name
  \<open>config-2\<close>.
\<close>

theorem luks_open_partition_mapper_path:
  "(\<forall>out. execute_result env (open_cmd k p m) = Inr out \<longrightarrow>
       luks_open_partition env k p m t =
         (Inr (''/dev/mapper/'' @ m), t @ [Execute (open_cmd k p m)])) \<and>
   (\<forall>r t'. luks_open_partition env k p m t = (Inr r, t') \<longrightarrow> r = ''/dev/mapper/'' @ m) \<and>
   (\<forall>r t'. config_drive_open env p t = (Inr r, t') \<longrightarrow>
       r = ''/dev/mapper/config-2'' \<and>
       (\<exists>key. unsealed_tpm_key env = Inr key \<and>
              t' = t @ [UnsealTpmKey, Execute (open_cmd key p ''config-2'')]))"
proof (intro conjI allI impI)
  fix out assume "execute_result env (open_cmd k p m) = Inr out"
  then show "luks_open_partition env k p m t =
      (Inr (''/dev/mapper/'' @ m), t @ [Execute (open_cmd k p m)])"
    by (rule luks_open_ok)
next
  fix r t' assume "luks_open_partition env k p m t = (Inr r, t')"
  then show "r = ''/dev/mapper/'' @ m" using luks_open_result by blast
next
  fix r t' assume a: "config_drive_open env p t = (Inr r, t')"
  then obtain key where k: "unsealed_tpm_key env = Inr key"
    and o: "luks_open_partition env key p ''config-2'' (t @ [UnsealTpmKey]) = (Inr r, t')"
    by (cases "unsealed_tpm_key env") (simp_all add: config_drive_open_unfold)
  from luks_open_result [OF o] have r: "r = ''/dev/mapper/'' @ ''config-2''"
    and t': "t' = (t @ [UnsealTpmKey]) @ [Execute (open_cmd key p ''config-2'')]"
    by blast+
  from r show "r = ''/dev/mapper/config-2''" by simp
  from t' k show "\<exists>key. unsealed_tpm_key env = Inr key \<and>
      t' = t @ [UnsealTpmKey, Execute (open_cmd key p ''config-2'')]"
    by simp
qed

theorem luks_open_partition_mapper_path_witness:
  "luks_open_partition sample_env ''/tmp/key'' ''/dev/sda4'' ''config-2'' [] =
     (Inr (''/dev/mapper/'' @ ''config-2''),
      [] @ [Execute (open_cmd ''/tmp/key'' ''/dev/sda4'' ''config-2'')]) \<and>
   fst (config_drive_open sample_env ''/dev/sda4'' []) = Inr ''/dev/mapper/config-2''"
proof -
  have h: "execute_result sample_env (open_cmd ''/tmp/key'' ''/dev/sda4'' ''config-2'') =
      Inr ([], [])"
    by (simp add: sample_env_def sample_execute_def open_cmd_def)
  have u: "unsealed_tpm_key sample_env = Inr ''/tmp/key''"
    by (simp add: sample_env_def)
  have c: "config_drive_open sample_env ''/dev/sda4'' [] =
      (Inr ''/dev/mapper/config-2'',
       [UnsealTpmKey, Execute (open_cmd ''/tmp/key'' ''/dev/sda4'' ''config-2'')])"
    by (simp add: config_drive_open_unfold u luks_open_ok [OF h])
  note main = luks_open_partition_mapper_path
  have a: "luks_open_partition sample_env ''/tmp/key'' ''/dev/sda4'' ''config-2'' [] =
     (Inr (''/dev/mapper/'' @ ''config-2''),
      [] @ [Execute (open_cmd ''/tmp/key'' ''/dev/sda4'' ''config-2'')])"
    by (rule main [THEN conjunct1, rule_format, OF h])
  have b: "fst (config_drive_open sample_env ''/dev/sda4'' []) = Inr ''/dev/mapper/config-2''"
    using main [THEN conjunct2, THEN conjunct2, rule_format, OF c, THEN conjunct1]
    by (simp only: c fst_conv)
  show ?thesis using a b by (rule conjI)
qed

subsection \<open>The error path of growing the partition\<close>

lemma save_and_reraise_Inl:
  "body t = (Inl e, t') \<Longrightarrow>
   save_and_reraise_exception body handler t =
     (case handler e t' of (Inr _, t'') \<Rightarrow> (Inl e, t'') | (Inl e', t'') \<Rightarrow> (Inl e', t''))"
  by (simp add: save_and_reraise_exception_def)

lemma save_and_reraise_Inr:
  "body t = (Inr x, t') \<Longrightarrow> save_and_reraise_exception body handler t = (Inr x, t')"
  by (simp add: save_and_reraise_exception_def)

lemma grow_part_first_fails:
  assumes "grow_part_read_first env info t = (Inl e, t')"
  shows "grow_part env info t = (Inl (UnboundLocalError ''first_sector''), t')"
  using assms
  by (simp add: grow_part_def and_then_def save_and_reraise_Inl grow_part_handler_def raise_def)

lemma read_first_sector_size_fails:
  assumes "device info = Some dev" and "dev_sector_size env dev = Inl e"
  shows "grow_part_read_first env info t = (Inl e, t @ [GetDevSectorSize dev])"
  using assms
  by (simp add: grow_part_read_first_def get_dev_sector_size_def prog_defs Let_def)

lemma read_first_sgdisk_fails:
  assumes "device info = Some dev" and "dev_sector_size env dev = Inr s"
    and "luks_header_sector_size s = Inr h"
    and "execute_result env (sgdisk_i_cmd (index_number info) dev) = Inl e"
  shows "grow_part_read_first env info t =
    (Inl e, t @ [GetDevSectorSize dev, Execute (sgdisk_i_cmd (index_number info) dev)])"
  using assms
  by (simp add: grow_part_read_first_def get_dev_sector_size_def prog_defs Let_def)

text \<open>
  C10. When the sector-size lookup fails, or the \<open>sgdisk -i\<close> query fails, inside
  \<open>_grow_part\<close>, the handler reads \<open>first_sector\<close> before any assignment has
  reached it: the call ends with \<open>UnboundLocalError\<close> in place of the original
  exception, and no record reaches the log.
\<close>

theorem grow_part_error_path_unbound:
  assumes "device info = Some dev"
    and "dev_sector_size env dev = Inl e \<or>
         (\<exists>s h. dev_sector_size env dev = Inr s \<and> luks_header_sector_size s = Inr h \<and>
                execute_result env (sgdisk_i_cmd (index_number info) dev) = Inl e)"
  shows "fst (grow_part env info t) = Inl (UnboundLocalError ''first_sector'') \<and>
         \<not> list_ex is_log_error (drop (length t) (snd (grow_part env info t)))"
  using assms(2)
proof (elim disjE exE conjE)
  assume "dev_sector_size env dev = Inl e"
  from grow_part_first_fails [OF read_first_sector_size_fails [OF assms(1) this]]
  show ?thesis by simp
next
  fix s h
  assume "dev_sector_size env dev = Inr s" "luks_header_sector_size s = Inr h"
    "execute_result env (sgdisk_i_cmd (index_number info) dev) = Inl e"
  from grow_part_first_fails [OF read_first_sgdisk_fails [OF assms(1) this]]
  show ?thesis by simp
qed

theorem grow_part_error_path_unbound_witness:
  "fst (grow_part no_sector_size_env sample_root_info []) = Inl (UnboundLocalError ''first_sector'') \<and>
   fst (grow_part broken_tools_env sample_root_info []) = Inl (UnboundLocalError ''first_sector'')"
proof -
  have d: "device sample_root_info = Some ''/dev/sda''" by (simp add: sample_root_info_def)
  have a: "dev_sector_size no_sector_size_env ''/dev/sda'' = Inl (ProcessExecutionError ''blockdev'')"
    by (simp add: no_sector_size_env_def)
  have b: "dev_sector_size broken_tools_env ''/dev/sda'' = Inr 512 \<and>
           luks_header_sector_size 512 = Inr 65536 \<and>
           execute_result broken_tools_env (sgdisk_i_cmd (index_number sample_root_info) ''/dev/sda'')
             = Inl (ProcessExecutionError ''exit status 4'')"
    by (simp add: broken_tools_env_def sample_env_def luks_header_sector_size_def int_of_truediv_def)
  have b': "dev_sector_size broken_tools_env ''/dev/sda'' = Inl (ProcessExecutionError ''exit status 4'') \<or>
         (\<exists>s h. dev_sector_size broken_tools_env ''/dev/sda'' = Inr s \<and> luks_header_sector_size s = Inr h \<and>
                execute_result broken_tools_env (sgdisk_i_cmd (index_number sample_root_info) ''/dev/sda'') =
                  Inl (ProcessExecutionError ''exit status 4''))"
    using b by blast
  from grow_part_error_path_unbound [OF d disjI1, OF a, of "[]"]
    grow_part_error_path_unbound [OF d b', of "[]"]
  show ?thesis by blast
qed


subsection \<open>Finding the root partition\<close>

lemma typecode_of_Inr:
  assumes "typecode_of env disk p = Inr tc"
  obtains out where "execute_result env (sgdisk_info_cmd disk (number p)) = Inr out"
    and "parse_typecode (fst out) = Inr tc"
  using assms by (cases "execute_result env (sgdisk_info_cmd disk (number p))")
    (simp_all add: typecode_of_def)

lemma scan_partition_other:
  assumes "typecode_of env disk p = Inr tc" and "tc \<noteq> root_typecode"
  shows "scan_partition env disk p acc t =
           (Inr acc, t @ [Execute (sgdisk_info_cmd disk (number p))])"
proof -
  from assms(1) obtain out where "execute_result env (sgdisk_info_cmd disk (number p)) = Inr out"
    and "parse_typecode (fst out) = Inr tc" by (rule typecode_of_Inr)
  with assms(2) show ?thesis
    by (simp add: scan_partition_def prog_defs Let_def)
qed

lemma scan_partition_root:
  assumes "typecode_of env disk p = Inr root_typecode"
    and "index_to_path env disk (number p) = Inr path"
  shows "scan_partition env disk p acc t =
           (Inr (Some \<lparr>partition_path = path, index_number = number p, device = None\<rparr>),
            t @ [Execute (sgdisk_info_cmd disk (number p)), PartitionIndexToPath disk (number p)])"
proof -
  from assms(1) obtain out where "execute_result env (sgdisk_info_cmd disk (number p)) = Inr out"
    and "parse_typecode (fst out) = Inr root_typecode" by (rule typecode_of_Inr)
  with assms(2) show ?thesis
    by (simp add: scan_partition_def partition_index_to_path_def prog_defs Let_def)
qed

lemma scan_partition_step:
  assumes "\<exists>tc. typecode_of env disk p = Inr tc"
    and "is_root_partition env disk p \<longrightarrow> root_info_of env disk p \<noteq> None"
  shows "scan_partition env disk p acc t =
           (Inr (if is_root_partition env disk p then root_info_of env disk p else acc),
            t @ scan_events env disk p)"
proof (cases "is_root_partition env disk p")
  case True
  then have tc: "typecode_of env disk p = Inr root_typecode"
    by (simp add: is_root_partition_def)
  from True assms(2) obtain path where path: "index_to_path env disk (number p) = Inr path"
    by (cases "index_to_path env disk (number p)") (simp_all add: root_info_of_def)
  from scan_partition_root [OF tc path, of acc t] True path show ?thesis
    by (simp add: scan_events_def root_info_of_def)
next
  case False
  from assms(1) obtain tc where tc: "typecode_of env disk p = Inr tc" by blast
  with False have "tc \<noteq> root_typecode" by (auto simp: is_root_partition_def)
  from scan_partition_other [OF tc this, of acc t] False show ?thesis
    by (simp add: scan_events_def)
qed

lemma for_each_scan:
  assumes "\<forall>p\<in>set parts. \<exists>tc. typecode_of env disk p = Inr tc"
    and "\<forall>p\<in>set parts. is_root_partition env disk p \<longrightarrow> root_info_of env disk p \<noteq> None"
  shows "for_each (scan_partition env disk) parts acc t =
           (Inr (if filter (is_root_partition env disk) parts = [] then acc
                 else root_info_of env disk (last (filter (is_root_partition env disk) parts))),
            t @ concat (map (scan_events env disk) parts))"
  using assms
proof (induction parts arbitrary: acc t)
  case Nil
  show ?case by simp
next
  case (Cons p parts)
  have step: "scan_partition env disk p acc t =
           (Inr (if is_root_partition env disk p then root_info_of env disk p else acc),
            t @ scan_events env disk p)"
    using Cons.prems by (intro scan_partition_step) simp_all
  have rest: "for_each (scan_partition env disk) parts acc' t' =
           (Inr (if filter (is_root_partition env disk) parts = [] then acc'
                 else root_info_of env disk (last (filter (is_root_partition env disk) parts))),
            t' @ concat (map (scan_events env disk) parts))" for acc' t'
    using Cons.prems by (intro Cons.IH) simp_all
  show ?case by (simp add: step rest)
qed

lemma detect_unfold:
  assumes "partitions_of env disk = Inr parts"
    and "for_each (scan_partition env disk) parts None (t @ [ListPartitions disk]) = (Inr found, t')"
  shows "detect_root_partition_on_device env disk t =
    (case found of
       None \<Rightarrow> (Inl (InstanceDeployFailure ''ERROR: Can't find typecode match!''),
                t' @ [LogError ''ERROR: Can't find root partition on %(device)s'' [disk]])
     | Some info \<Rightarrow>
         (case execute_result env (ln_cmd (partition_path info)) of
            Inl e \<Rightarrow> (Inl e, t' @ [Execute (ln_cmd (partition_path info)),
                        LogError ''ERROR: Can't find root partition on %(device)s'' [disk]])
          | Inr out \<Rightarrow> (Inr info, t' @ [Execute (ln_cmd (partition_path info))])))"
  using assms
  by (simp add: detect_root_partition_on_device_def list_partitions_def prog_defs
      split: option.splits sum.splits)

text \<open>
  C9. When the scan has found a root partition and the \<open>ln -s\<close> command then fails, the
  exception of \<open>ln\<close> reaches the caller of \<open>detect_root_partition_on_device\<close>, after
  the same log record that a failed lookup leaves; the partition found is not returned.
\<close>

theorem detect_root_partition_link_failure:
  assumes "partitions_of env disk = Inr parts"
    and "for_each (scan_partition env disk) parts None (t @ [ListPartitions disk]) =
           (Inr (Some info), t')"
    and "execute_result env (ln_cmd (partition_path info)) = Inl e"
  shows "detect_root_partition_on_device env disk t =
           (Inl e, t' @ [Execute (ln_cmd (partition_path info)),
                         LogError ''ERROR: Can't find root partition on %(device)s'' [disk]])"
  using detect_unfold [OF assms(1,2)] assms(3) by simp

lemma no_root_filter:
  assumes "\<forall>p\<in>set parts. \<exists>tc. typecode_of env disk p = Inr tc \<and> tc \<noteq> root_typecode"
  shows "filter (is_root_partition env disk) parts = []"
    and "concat (map (scan_events env disk) parts) =
         map (\<lambda>p. Execute (sgdisk_info_cmd disk (number p))) parts"
proof -
  have nr: "\<not> is_root_partition env disk p" if "p \<in> set parts" for p
    using assms that by (auto simp: is_root_partition_def)
  then show "filter (is_root_partition env disk) parts = []" by (simp add: filter_empty_conv)
  from nr show "concat (map (scan_events env disk) parts) =
         map (\<lambda>p. Execute (sgdisk_info_cmd disk (number p))) parts"
    by (induction parts) (simp_all add: scan_events_def)
qed

lemma detect_no_root:
  assumes "partitions_of env disk = Inr parts"
    and "\<forall>p\<in>set parts. \<exists>tc. typecode_of env disk p = Inr tc \<and> tc \<noteq> root_typecode"
  shows "detect_root_partition_on_device env disk t =
           (Inl (InstanceDeployFailure ''ERROR: Can't find typecode match!''),
            t @ ListPartitions disk #
              map (\<lambda>p. Execute (sgdisk_info_cmd disk (number p))) parts @
              [LogError ''ERROR: Can't find root partition on %(device)s'' [disk]])"
proof -
  have a: "\<forall>p\<in>set parts. \<exists>tc. typecode_of env disk p = Inr tc" using assms(2) by blast
  have b: "\<forall>p\<in>set parts. is_root_partition env disk p \<longrightarrow> root_info_of env disk p \<noteq> None"
    using assms(2) by (auto simp: is_root_partition_def)
  have "for_each (scan_partition env disk) parts None (t @ [ListPartitions disk]) =
          (Inr None, (t @ [ListPartitions disk]) @
             map (\<lambda>p. Execute (sgdisk_info_cmd disk (number p))) parts)"
    using for_each_scan [OF a b, of None "t @ [ListPartitions disk]"] no_root_filter [OF assms(2)]
    by simp
  from detect_unfold [OF assms(1) this] show ?thesis by simp
qed

lemma info_events_harmless:
  "\<not> list_ex is_geometry_call (map (\<lambda>p. Execute (sgdisk_info_cmd disk (number p))) parts) \<and>
   \<not> list_ex is_encryption_call (map (\<lambda>p. Execute (sgdisk_info_cmd disk (number p))) parts)"
  by (induction parts) (simp_all add: sgdisk_info_cmd_def)

text \<open>
  C5. When every partition of the disk reports a type code other than the root type code,
  \<open>detect_root_partition_on_device\<close> raises \<open>InstanceDeployFailure\<close> after the
  queries, and \<open>whole_disk_image_encryption\<close> ends with the same exception and the same
  trace: no sector-size lookup, no \<open>sgdisk -i\<close> or rewrite, no key generation and no
  \<open>cryptsetup\<close> command follows.
\<close>

theorem detect_root_partition_none_found:
  assumes "partitions_of env disk = Inr parts"
    and "\<forall>p\<in>set parts. \<exists>tc. typecode_of env disk p = Inr tc \<and> tc \<noteq> root_typecode"
  shows "detect_root_partition_on_device env disk t =
           (Inl (InstanceDeployFailure ''ERROR: Can't find typecode match!''),
            t @ ListPartitions disk #
              map (\<lambda>p. Execute (sgdisk_info_cmd disk (number p))) parts @
              [LogError ''ERROR: Can't find root partition on %(device)s'' [disk]]) \<and>
         whole_disk_image_encryption env disk t = 
           (Inl (InstanceDeployFailure ''ERROR: Can't find typecode match!''),
            t @ ListPartitions disk #
              map (\<lambda>p. Execute (sgdisk_info_cmd disk (number p))) parts @
              [LogError ''ERROR: Can't find root partition on %(device)s'' [disk]]) \<and>
         \<not> list_ex is_geometry_call
             (drop (length t) (snd (whole_disk_image_encryption env disk t))) \<and>
         \<not> list_ex is_encryption_call
             (drop (length t) (snd (whole_disk_image_encryption env disk t)))"
proof -
  note d = detect_no_root [OF assms, of t]
  have w: "whole_disk_image_encryption env disk t = 
           (Inl (InstanceDeployFailure ''ERROR: Can't find typecode match!''),
            t @ ListPartitions disk #
              map (\<lambda>p. Execute (sgdisk_info_cmd disk (number p))) parts @
              [LogError ''ERROR: Can't find root partition on %(device)s'' [disk]])"
    by (simp add: whole_disk_image_encryption_def and_then_def d)
  have g: "\<not> list_ex is_geometry_call
             (drop (length t) (snd (whole_disk_image_encryption env disk t)))"
    using info_events_harmless [of disk parts] by (simp add: w)
  have e: "\<not> list_ex is_encryption_call
             (drop (length t) (snd (whole_disk_image_encryption env disk t)))"
    using info_events_harmless [of disk parts] by (simp add: w)
  from d w g e show ?thesis by blast
qed

lemma sorted_last_greatest:
  "sorted (map f ys) \<Longrightarrow> y \<in> set ys \<Longrightarrow> f y \<le> f (last ys)"
  by (induction ys) auto

lemma last_root_greatest:
  assumes "sorted (map number parts)" and "p \<in> set parts" and "P p"
  shows "number p \<le> number (last (filter P parts))"
proof -
  have "sorted (map number (filter P parts))"
    using assms(1) by (rule sorted_filter)
  moreover have "p \<in> set (filter P parts)" using assms(2,3) by simp
  ultimately show ?thesis by (rule sorted_last_greatest)
qed

lemmas eval_text = str_int_def nat_digits.simps digit_char_def parse_typecode_def
  splitlines_def is_linebreak_def py_index_def re_split_space_def

text \<open>
  C4, as claimed: the scan runs in ascending order of index and the last match wins. The
  scan follows the list that \<open>list_partitions\<close> returns, and nothing sorts it: for the
  list 3, 1, 2 with the root type code on partitions 2 and 3, the queries go to 3, 1, 2 and
  partition 2 is returned, although partition 3 matches and has the greater index.
\<close>

theorem detect_root_partition_scan_not_ascending:
  "partitions_of shuffled_env ''/dev/sda'' = Inr [\<lparr>number = 3\<rparr>, \<lparr>number = 1\<rparr>, \<lparr>number = 2\<rparr>] \<and>
   is_root_partition shuffled_env ''/dev/sda'' \<lparr>number = 3\<rparr> \<and>
   detect_root_partition_on_device shuffled_env ''/dev/sda'' [] =
     (Inr \<lparr>partition_path = ''/dev/sda2'', index_number = 2, device = None\<rparr>,
      [ListPartitions ''/dev/sda'',
       Execute [''sgdisk'', ''--info'', ''3'', ''/dev/sda''],
       PartitionIndexToPath ''/dev/sda'' 3,
       Execute [''sgdisk'', ''--info'', ''1'', ''/dev/sda''],
       Execute [''sgdisk'', ''--info'', ''2'', ''/dev/sda''],
       PartitionIndexToPath ''/dev/sda'' 2,
       Execute [''ln'', ''-s'', ''/dev/sda2'', ''/tmp/root_partition'']])"
proof -
  let ?parts = "[\<lparr>number = 3\<rparr>, \<lparr>number = 1\<rparr>, \<lparr>number = 2\<rparr>]"
  let ?info = "\<lparr>partition_path = ''/dev/sda2'', index_number = 2, device = None\<rparr>"
  have parts: "partitions_of shuffled_env ''/dev/sda'' = Inr ?parts"
    by (simp add: shuffled_env_def)
  have root3: "is_root_partition shuffled_env ''/dev/sda'' \<lparr>number = 3\<rparr>"
    by (simp add: is_root_partition_def typecode_of_def shuffled_env_def two_roots_env_def
        sgdisk_info_cmd_def sample_info_def eval_text root_typecode_def)
  have loop: "for_each (scan_partition shuffled_env ''/dev/sda'') ?parts None
        ([] @ [ListPartitions ''/dev/sda'']) =
      (Inr (Some ?info),
       [ListPartitions ''/dev/sda'',
        Execute [''sgdisk'', ''--info'', ''3'', ''/dev/sda''],
        PartitionIndexToPath ''/dev/sda'' 3,
        Execute [''sgdisk'', ''--info'', ''1'', ''/dev/sda''],
        Execute [''sgdisk'', ''--info'', ''2'', ''/dev/sda''],
        PartitionIndexToPath ''/dev/sda'' 2])"
    by (simp add: scan_partition_def partition_index_to_path_def prog_defs Let_def
        shuffled_env_def two_roots_env_def sample_env_def sample_execute_def
        sgdisk_info_cmd_def sample_info_def eval_text root_typecode_def)
  have ln: "execute_result shuffled_env (ln_cmd (partition_path ?info)) = Inr ([], [])"
    by (simp add: shuffled_env_def two_roots_env_def sample_execute_def ln_cmd_def)
  have run: "detect_root_partition_on_device shuffled_env ''/dev/sda'' [] =
     (Inr ?info,
      [ListPartitions ''/dev/sda'',
       Execute [''sgdisk'', ''--info'', ''3'', ''/dev/sda''],
       PartitionIndexToPath ''/dev/sda'' 3,
       Execute [''sgdisk'', ''--info'', ''1'', ''/dev/sda''],
       Execute [''sgdisk'', ''--info'', ''2'', ''/dev/sda''],
       PartitionIndexToPath ''/dev/sda'' 2,
       Execute [''ln'', ''-s'', ''/dev/sda2'', ''/tmp/root_partition'']])"
    using detect_unfold [OF parts loop] ln by (simp add: ln_cmd_def)
  from parts root3 run show ?thesis by (intro conjI)
qed

text \<open>
  C4, amended. Take a disk whose partition list is \<open>parts\<close>, where every
  \<open>sgdisk --info\<close> query yields a type code, the path lookup succeeds for the partitions
  that carry the root type code, at least one partition carries it, and the \<open>ln\<close>
  command succeeds. Then \<open>detect_root_partition_on_device\<close> queries the partitions in
  the order in which \<open>list_partitions\<close> returned them and returns the path and the index
  of the last partition in that order that carries the root type code; with exactly one
  such partition it is that one; and when the list is in ascending order of index, no
  matching partition has a greater index than the one returned.
\<close>

theorem detect_root_partition_last_match:
  assumes parts: "partitions_of env disk = Inr parts"
    and queries: "\<forall>p\<in>set parts. \<exists>tc. typecode_of env disk p = Inr tc"
    and paths: "\<forall>p\<in>set parts. is_root_partition env disk p \<longrightarrow> root_info_of env disk p \<noteq> None"
    and some: "filter (is_root_partition env disk) parts \<noteq> []"
    and r: "r = last (filter (is_root_partition env disk) parts)"
    and path: "index_to_path env disk (number r) = Inr path"
    and ln: "execute_result env (ln_cmd path) = Inr out"
  shows "detect_root_partition_on_device env disk t =
           (Inr \<lparr>partition_path = path, index_number = number r, device = None\<rparr>,
            t @ ListPartitions disk # concat (map (scan_events env disk) parts) @
              [Execute (ln_cmd path)]) \<and>
         r \<in> set parts \<and> is_root_partition env disk r \<and>
         (\<forall>q. filter (is_root_partition env disk) parts = [q] \<longrightarrow> r = q) \<and>
         (sorted (map number parts) \<longrightarrow>
            (\<forall>p\<in>set parts. is_root_partition env disk p \<longrightarrow> number p \<le> number r))"
proof -
  let ?info = "\<lparr>partition_path = path, index_number = number r, device = None\<rparr>"
  have ri: "root_info_of env disk r = Some ?info"
    using path by (simp add: root_info_of_def)
  have loop: "for_each (scan_partition env disk) parts None (t @ [ListPartitions disk]) =
      (Inr (Some ?info), (t @ [ListPartitions disk]) @ concat (map (scan_events env disk) parts))"
    using for_each_scan [OF queries paths, of None "t @ [ListPartitions disk]"] some r ri
    by simp
  have a: "detect_root_partition_on_device env disk t =
           (Inr ?info, t @ ListPartitions disk # concat (map (scan_events env disk) parts) @
              [Execute (ln_cmd path)])"
    using detect_unfold [OF parts loop] ln by simp
  have "last (filter (is_root_partition env disk) parts) \<in>
          set (filter (is_root_partition env disk) parts)"
    using some by (rule last_in_set)
  then have "r \<in> set (filter (is_root_partition env disk) parts)"
    using r by simp
  then have b: "r \<in> set parts" and c: "is_root_partition env disk r" by simp_all
  have d: "\<forall>q. filter (is_root_partition env disk) parts = [q] \<longrightarrow> r = q"
    using r by simp
  have e: "sorted (map number parts) \<longrightarrow>
            (\<forall>p\<in>set parts. is_root_partition env disk p \<longrightarrow> number p \<le> number r)"
    using last_root_greatest [of parts _ "is_root_partition env disk"] r by blast
  from a b c d e show ?thesis by blast
qed


theorem detect_root_partition_last_match_witness:
  "fst (detect_root_partition_on_device two_roots_env ''/dev/sda'' []) =
     Inr \<lparr>partition_path = ''/dev/sda3'', index_number = 3, device = None\<rparr> \<and>
   filter (is_root_partition two_roots_env ''/dev/sda'')
     [\<lparr>number = 1\<rparr>, \<lparr>number = 2\<rparr>, \<lparr>number = 3\<rparr>] = [\<lparr>number = 2\<rparr>, \<lparr>number = 3\<rparr>]"
proof -
  let ?parts = "[\<lparr>number = 1\<rparr>, \<lparr>number = 2\<rparr>, \<lparr>number = 3\<rparr>]"
  have parts: "partitions_of two_roots_env ''/dev/sda'' = Inr ?parts"
    by (simp add: two_roots_env_def sample_env_def)
  have t1: "typecode_of two_roots_env ''/dev/sda'' \<lparr>number = 1\<rparr> =
      Inr ''C12A7328-F81F-11D2-BA4B-00A0C93EC93B''"
    by (simp add: typecode_of_def two_roots_env_def sample_execute_def sgdisk_info_cmd_def
        sample_info_def eval_text)
  have t2: "typecode_of two_roots_env ''/dev/sda'' \<lparr>number = 2\<rparr> = Inr root_typecode"
    by (simp add: typecode_of_def two_roots_env_def sample_execute_def sgdisk_info_cmd_def
        sample_info_def eval_text root_typecode_def)
  have t3: "typecode_of two_roots_env ''/dev/sda'' \<lparr>number = 3\<rparr> = Inr root_typecode"
    by (simp add: typecode_of_def two_roots_env_def sample_execute_def sgdisk_info_cmd_def
        sample_info_def eval_text root_typecode_def)
  have r1: "\<not> is_root_partition two_roots_env ''/dev/sda'' \<lparr>number = 1\<rparr>"
    by (simp add: is_root_partition_def t1 root_typecode_def)
  have r2: "is_root_partition two_roots_env ''/dev/sda'' \<lparr>number = 2\<rparr>"
    by (simp add: is_root_partition_def t2)
  have r3: "is_root_partition two_roots_env ''/dev/sda'' \<lparr>number = 3\<rparr>"
    by (simp add: is_root_partition_def t3)
  have filt: "filter (is_root_partition two_roots_env ''/dev/sda'') ?parts =
      [\<lparr>number = 2\<rparr>, \<lparr>number = 3\<rparr>]"
    by (simp add: r1 r2 r3)
  have queries: "\<forall>p\<in>set ?parts. \<exists>tc. typecode_of two_roots_env ''/dev/sda'' p = Inr tc"
    by (simp add: t1 t2 t3)
  have paths: "\<forall>p\<in>set ?parts. is_root_partition two_roots_env ''/dev/sda'' p \<longrightarrow>
      root_info_of two_roots_env ''/dev/sda'' p \<noteq> None"
    by (simp add: root_info_of_def two_roots_env_def sample_env_def)
  have some: "filter (is_root_partition two_roots_env ''/dev/sda'') ?parts \<noteq> []"
    unfolding filt by simp
  have r: "\<lparr>number = 3\<rparr> = last (filter (is_root_partition two_roots_env ''/dev/sda'') ?parts)"
    unfolding filt by simp
  have path: "index_to_path two_roots_env ''/dev/sda'' (number \<lparr>number = 3\<rparr>) = Inr ''/dev/sda3''"
    by (simp add: two_roots_env_def sample_env_def eval_text)
  have ln: "execute_result two_roots_env (ln_cmd ''/dev/sda3'') = Inr ([], [])"
    by (simp add: two_roots_env_def sample_execute_def ln_cmd_def)
  have "fst (detect_root_partition_on_device two_roots_env ''/dev/sda'' []) =
     Inr \<lparr>partition_path = ''/dev/sda3'', index_number = number \<lparr>number = 3\<rparr>, device = None\<rparr>"
    by (simp only: detect_root_partition_last_match [OF parts queries paths some r path ln, of "[]", THEN conjunct1] fst_conv)
  then show ?thesis using filt by simp
qed

theorem detect_root_partition_none_found_witness:
  "whole_disk_image_encryption rootless_env ''/dev/sda'' [] =
     (Inl (InstanceDeployFailure ''ERROR: Can't find typecode match!''),
      [ListPartitions ''/dev/sda'',
       Execute [''sgdisk'', ''--info'', ''1'', ''/dev/sda''],
       Execute [''sgdisk'', ''--info'', ''3'', ''/dev/sda''],
       LogError ''ERROR: Can't find root partition on %(device)s'' [''/dev/sda'']])"
proof -
  let ?parts = "[\<lparr>number = 1\<rparr>, \<lparr>number = 3\<rparr>]"
  have parts: "partitions_of rootless_env ''/dev/sda'' = Inr ?parts"
    by (simp add: rootless_env_def)
  have t1: "typecode_of rootless_env ''/dev/sda'' \<lparr>number = 1\<rparr> =
      Inr ''C12A7328-F81F-11D2-BA4B-00A0C93EC93B''"
    by (simp add: typecode_of_def rootless_env_def sample_env_def sample_execute_def
        sgdisk_info_cmd_def sample_info_def eval_text)
  have t3: "typecode_of rootless_env ''/dev/sda'' \<lparr>number = 3\<rparr> =
      Inr ''0FC63DAF-8483-4772-8E79-3D69D8477DE4''"
    by (simp add: typecode_of_def rootless_env_def sample_env_def sample_execute_def
        sgdisk_info_cmd_def sample_info_def eval_text)
  have none: "\<forall>p\<in>set ?parts. \<exists>tc. typecode_of rootless_env ''/dev/sda'' p = Inr tc \<and>
      tc \<noteq> root_typecode"
    by (simp add: t1 t3 root_typecode_def)
  have "whole_disk_image_encryption rootless_env ''/dev/sda'' [] =
     (Inl (InstanceDeployFailure ''ERROR: Can't find typecode match!''),
      [] @ ListPartitions ''/dev/sda'' #
        map (\<lambda>p. Execute (sgdisk_info_cmd ''/dev/sda'' (number p))) ?parts @
        [LogError ''ERROR: Can't find root partition on %(device)s'' [''/dev/sda'']])"
    by (rule detect_root_partition_none_found [OF parts none, of "[]", THEN conjunct2, THEN conjunct1])
  then show ?thesis
    by (simp add: sgdisk_info_cmd_def str_int_def nat_digits.simps digit_char_def)
qed

theorem detect_root_partition_link_failure_witness:
  "detect_root_partition_on_device broken_ln_env ''/dev/sda'' [] =
     (Inl (ProcessExecutionError ''File exists''),
      [ListPartitions ''/dev/sda'',
       Execute [''sgdisk'', ''--info'', ''1'', ''/dev/sda''],
       Execute [''sgdisk'', ''--info'', ''2'', ''/dev/sda''],
       PartitionIndexToPath ''/dev/sda'' 2,
       Execute [''sgdisk'', ''--info'', ''3'', ''/dev/sda''],
       Execute [''ln'', ''-s'', ''/dev/sda2'', ''/tmp/root_partition''],
       LogError ''ERROR: Can't find root partition on %(device)s'' [''/dev/sda'']])"
proof -
  let ?parts = "[\<lparr>number = 1\<rparr>, \<lparr>number = 2\<rparr>, \<lparr>number = 3\<rparr>]"
  let ?info = "\<lparr>partition_path = ''/dev/sda2'', index_number = 2, device = None\<rparr>"
  have parts: "partitions_of broken_ln_env ''/dev/sda'' = Inr ?parts"
    by (simp add: broken_ln_env_def sample_env_def)
  have loop: "for_each (scan_partition broken_ln_env ''/dev/sda'') ?parts None
        ([] @ [ListPartitions ''/dev/sda'']) =
      (Inr (Some ?info),
       [ListPartitions ''/dev/sda'',
        Execute [''sgdisk'', ''--info'', ''1'', ''/dev/sda''],
        Execute [''sgdisk'', ''--info'', ''2'', ''/dev/sda''],
        PartitionIndexToPath ''/dev/sda'' 2,
        Execute [''sgdisk'', ''--info'', ''3'', ''/dev/sda'']])"
    by (simp add: scan_partition_def partition_index_to_path_def prog_defs Let_def
        broken_ln_env_def sample_env_def sample_execute_def sgdisk_info_cmd_def ln_cmd_def
        sample_info_def eval_text root_typecode_def)
  have ln: "execute_result broken_ln_env (ln_cmd (partition_path ?info)) =
      Inl (ProcessExecutionError ''File exists'')"
    by (simp add: broken_ln_env_def)
  from detect_root_partition_link_failure [OF parts loop ln] show ?thesis by (simp add: ln_cmd_def)
qed

subsection \<open>Integers written and read back\<close>










subsection \<open>The rewritten partition entry\<close>







end
